theory Spec2Isabelle
  imports
    Complex_Main
    "HOL-Library.Char_ord"
    "HOL-Library.List_Lexorder"
    "HOL-Library.Sublist"
begin

section \<open>Python values used by main.py\<close>

text \<open>
  A Python \<open>str\<close> is modelled as its UTF-8 encoding, an Isabelle \<open>string\<close>. Concatenation,
  \<open>startswith\<close> (\<^const>\<open>prefix\<close>) and the ASCII literals of the source are the same on both
  sides, and the lexicographic order of \<open>HOL-Library.List_Lexorder\<close> over the character
  codes of \<open>HOL-Library.Char_ord\<close> is Python's \<open><\<close> on \<open>str\<close>: comparing UTF-8 bytes orders
  strings as comparing code points does. The bytes of a file are a \<open>string\<close> as well.

  Whatever unwinds the Python stack is a \<open>base_exception\<close>. \<open>Exception msg\<close> stands for an
  instance of the class \<open>Exception\<close> (any subclass; \<open>msg\<close> is what \<open>str(e)\<close> prints), which is
  what the Azure and OpenAI clients, \<open>open\<close>, \<open>print\<close> and \<open>input\<close> raise. \<open>KeyboardInterrupt\<close> and
  \<open>SystemExit\<close> derive from \<open>BaseException\<close> only: the interpreter raises them, and an
  \<open>except Exception\<close> clause does not catch them.
\<close>

datatype base_exception = Exception string | KeyboardInterrupt | SystemExit

type_synonym bytes = string

text \<open>The single quote that the messages and the filter put around a value.\<close>

abbreviation quote :: string where
  "quote \<equiv> [CHR 0x27]"

text \<open>\<open>f"{v}"\<close> for a value read with \<open>os.getenv\<close> or \<open>dict.get\<close>: \<open>None\<close> prints as \<open>None\<close>.\<close>

definition fmt :: "string option \<Rightarrow> string" where
  "fmt v = (case v of None \<Rightarrow> ''None'' | Some s \<Rightarrow> s)"

text \<open>\<open>str(n)\<close> for the length of a list.\<close>

fun str_nat :: "nat \<Rightarrow> string" where
  "str_nat n =
     (if n < 10 then [''0123456789'' ! n]
      else str_nat (n div 10) @ [''0123456789'' ! (n mod 10)])"

text \<open>\<open>sep.join(parts)\<close>.\<close>

fun join :: "string \<Rightarrow> string list \<Rightarrow> string" where
  "join sep [] = []"
| "join sep [x] = x"
| "join sep (x # y # ys) = x @ sep @ join sep (y # ys)"

text \<open>
  \<open>os.path.basename\<close> is the platform's: \<open>posixpath.basename\<close> or \<open>ntpath.basename\<close>. The
  program is modelled for either, with the function a part of the world below. This is
  the one of \<open>posixpath\<close>: \<open>p[p.rfind('/') + 1:]\<close>, what follows the last slash (all of
  \<open>p\<close> when it has none).
\<close>

definition posixpath_basename :: "string \<Rightarrow> string" where
  "posixpath_basename p = rev (takeWhile (\<lambda>c. c \<noteq> CHR ''/'') (rev p))"

text \<open>
  \<open>str.strip()\<close> removes from both ends the characters of \<open>str.isspace\<close>: the code points
  9 to 13, 28 to 32, U+0085, U+00A0, U+1680, U+2000 to U+200A, U+2028, U+2029, U+202F, U+205F
  and U+3000, listed here in UTF-8. A character of UTF-8 text is never a proper part of
  another one, so removing encoded characters from the ends of the bytes removes the
  characters.
\<close>

definition whitespace :: "string list" where
  "whitespace =
     [[CHR 0x09], [CHR 0x0A], [CHR 0x0B], [CHR 0x0C], [CHR 0x0D],
      [CHR 0x1C], [CHR 0x1D], [CHR 0x1E], [CHR 0x1F], [CHR 0x20],
      [CHR 0xC2, CHR 0x85], [CHR 0xC2, CHR 0xA0], [CHR 0xE1, CHR 0x9A, CHR 0x80],
      [CHR 0xE2, CHR 0x80, CHR 0x80], [CHR 0xE2, CHR 0x80, CHR 0x81],
      [CHR 0xE2, CHR 0x80, CHR 0x82], [CHR 0xE2, CHR 0x80, CHR 0x83],
      [CHR 0xE2, CHR 0x80, CHR 0x84], [CHR 0xE2, CHR 0x80, CHR 0x85],
      [CHR 0xE2, CHR 0x80, CHR 0x86], [CHR 0xE2, CHR 0x80, CHR 0x87],
      [CHR 0xE2, CHR 0x80, CHR 0x88], [CHR 0xE2, CHR 0x80, CHR 0x89],
      [CHR 0xE2, CHR 0x80, CHR 0x8A], [CHR 0xE2, CHR 0x80, CHR 0xA8],
      [CHR 0xE2, CHR 0x80, CHR 0xA9], [CHR 0xE2, CHR 0x80, CHR 0xAF],
      [CHR 0xE2, CHR 0x81, CHR 0x9F], [CHR 0xE3, CHR 0x80, CHR 0x80]]"

function lstrip_any :: "string list \<Rightarrow> string \<Rightarrow> string" where
  "lstrip_any chars s =
     (case find (\<lambda>c. c \<noteq> [] \<and> prefix c s) chars of
        None \<Rightarrow> s
      | Some c \<Rightarrow> lstrip_any chars (drop (length c) s))"
  by pat_completeness auto
termination
proof (relation "measure (\<lambda>(chars, s). length s)")
  show "wf (measure (\<lambda>(chars, s). length s))" by simp
next
  fix chars s c
  assume "find (\<lambda>c. c \<noteq> [] \<and> prefix c s) chars = Some c"
  then have c: "c \<noteq> [] \<and> prefix c s" by (auto simp: find_Some_iff)
  then have "s \<noteq> []" by auto
  with c show "((chars, drop (length c) s), (chars, s)) \<in> measure (\<lambda>(chars, s). length s)"
    by simp
qed

declare lstrip_any.simps [simp del]

definition strip :: "string \<Rightarrow> string" where
  "strip s = rev (lstrip_any (map rev whitespace) (rev (lstrip_any whitespace s)))"

text \<open>
  \<open>str.lower()\<close> is used only to compare the result with \<open>yes\<close>, \<open>y\<close>, \<open>exit\<close> and \<open>quit\<close>
  (lines 184 and 198). It is modelled on the letters \<open>A\<close> to \<open>Z\<close>: lowering a character
  beyond ASCII never yields a letter of these four words alone, so the comparisons come out
  the same. \<open>str.replace(c, '')\<close> deletes a character (line 186).
\<close>

definition lower_char :: "char \<Rightarrow> char" where
  "lower_char c =
     (case map_of (zip ''ABCDEFGHIJKLMNOPQRSTUVWXYZ'' ''abcdefghijklmnopqrstuvwxyz'') c of
        Some d \<Rightarrow> d
      | None \<Rightarrow> c)"

definition lower :: "string \<Rightarrow> string" where
  "lower s = map lower_char s"

definition replace :: "string \<Rightarrow> char \<Rightarrow> string" where
  "replace s c = filter (\<lambda>d. d \<noteq> c) s"

section \<open>Configuration (main.py, lines 23 to 38)\<close>

text \<open>Each value is \<open>os.getenv(...)\<close>: \<open>None\<close> when the variable is not set.\<close>

record config =
  STORAGE_ACCOUNT_URL :: "string option"
  CONTAINER_NAME :: "string option"
  SEARCH_ENDPOINT :: "string option"
  SEARCH_INDEX_NAME :: "string option"
  SEARCH_API_KEY :: "string option"
  OPENAI_ENDPOINT :: "string option"
  OPENAI_API_KEY :: "string option"
  OPENAI_DEPLOYMENT :: "string option"
  OPENAI_API_VERSION :: "string option"

section \<open>The world outside the program\<close>

text \<open>
  The arguments of \<open>search_client.search\<close> and of \<open>client.chat.completions.create\<close>, as the
  source passes them.
\<close>

record search_request =
  req_search_text :: string
  req_filter :: string
  req_select :: "string list"
  req_top :: int

record chat_request =
  req_model :: "string option"
  req_messages :: "(string \<times> string) list"
  req_temperature :: rat

text \<open>
  A search result is read with \<open>result.get(field)\<close> only, so it is a map from field names
  to values. A document is the dict \<open>search_documents\<close> builds: a key is absent
  (\<open>doc[k]\<close> raises KeyError), or holds \<open>None\<close> or a string.
\<close>

type_synonym search_result = "string \<rightharpoonup> string"
type_synonym document = "string \<rightharpoonup> string option"

text \<open>
  The state the program reads and writes, and what each call into a library answers:
  \<^item> \<open>stdout\<close>: the chunks written so far, by \<open>print\<close> and by the prompt of \<open>input\<close>;
  \<^item> \<open>stdout_encodes\<close>: whether the encoding of standard output has every character of a
    text that is not plain ASCII (always, for UTF-8; not for an emoji under cp1252 or ASCII);
  \<^item> \<open>os_path_basename\<close>: \<open>os.path.basename\<close> of the platform;
  \<^item> \<open>path_exists\<close>, \<open>open_rb\<close>: \<open>os.path.exists\<close>, and \<open>open(path, "rb")\<close> read to its end;
  \<^item> \<open>container_client\<close>: the exception, if any, of lines 55 to 59 (credential, service
    client and container client); \<open>blob_client\<close>: that of \<open>get_blob_client\<close> (line 68);
  \<^item> \<open>upload_fault\<close>: the exception, if any, with which the storage service fails an upload
    request (authentication failure, permission denial, network error);
  \<^item> \<open>blobs\<close>: the objects of the container, by key;
  \<^item> \<open>search_client\<close>, \<open>search_service\<close>: the exception, if any, of lines 96 to 100, and what
    the search call, iterated to its end, yields (lines 110 to 122);
  \<^item> \<open>openai_client\<close>, \<open>chat_service\<close>: the exception, if any, of lines 145 to 149, and what
    the chat-completion request returns: the \<open>message.content\<close> of each of its choices;
  \<^item> \<open>search_log\<close>, \<open>chat_log\<close>: the requests sent so far to the two services.
\<close>

record world =
  stdout :: "string list"
  stdout_encodes :: "string \<Rightarrow> bool"
  os_path_basename :: "string \<Rightarrow> string"
  path_exists :: "string \<Rightarrow> bool"
  open_rb :: "string \<Rightarrow> base_exception + bytes"
  container_client :: "string option \<Rightarrow> string option \<Rightarrow> base_exception option"
  blob_client :: "string \<Rightarrow> base_exception option"
  upload_fault :: "string \<Rightarrow> bytes \<Rightarrow> base_exception option"
  blobs :: "string \<rightharpoonup> bytes"
  search_client :: "string option \<Rightarrow> string option \<Rightarrow> string option \<Rightarrow> base_exception option"
  search_service :: "search_request \<Rightarrow> base_exception + search_result list"
  search_log :: "search_request list"
  openai_client :: "string option \<Rightarrow> string option \<Rightarrow> string option \<Rightarrow> base_exception option"
  chat_service :: "chat_request \<Rightarrow> base_exception + string option list"
  chat_log :: "chat_request list"

subsection \<open>print and input\<close>

text \<open>
  \<open>print(s)\<close> encodes \<open>s\<close> for standard output and writes it with a newline. The encoding
  is an extension of ASCII, so plain ASCII text is always written; other text is written
  when the encoding has its characters, and otherwise \<open>print\<close> raises UnicodeEncodeError
  (an \<open>Exception\<close>; its message, which names the codec and the character, is not modelled)
  and writes nothing.
\<close>

definition is_ascii :: "string \<Rightarrow> bool" where
  "is_ascii s = list_all (\<lambda>c. c < CHR 0x80) s"

definition encodable :: "world \<Rightarrow> string \<Rightarrow> bool" where
  "encodable w s = (is_ascii s \<or> stdout_encodes w s)"

definition print :: "world \<Rightarrow> string \<Rightarrow> base_exception + world" where
  "print w s =
     (if encodable w s then Inr (w\<lparr>stdout := stdout w @ [s @ ''\<newline>'']\<rparr>)
      else Inl (Exception ''UnicodeEncodeError''))"

text \<open>
  \<open>print(f"literal{e}")\<close> in a handler. The message of the exception is taken to be text
  that standard output can encode, so this fails only on the literal.
\<close>

definition print_exception :: "world \<Rightarrow> string \<Rightarrow> string \<Rightarrow> base_exception + world" where
  "print_exception w literal e =
     (if encodable w literal then Inr (w\<lparr>stdout := stdout w @ [literal @ e @ ''\<newline>'']\<rparr>)
      else Inl (Exception ''UnicodeEncodeError''))"

text \<open>A statement \<open>print(s)\<close> followed by the rest of a block: an exception ends the block.\<close>

definition print_then ::
  "world \<Rightarrow> string \<Rightarrow> (world \<Rightarrow> (base_exception + 'a) \<times> world) \<Rightarrow> (base_exception + 'a) \<times> world"
where
  "print_then w s rest = (case print w s of Inl e \<Rightarrow> (Inl e, w) | Inr w' \<Rightarrow> rest w')"

definition print_exception_then ::
  "world \<Rightarrow> string \<Rightarrow> string \<Rightarrow> (world \<Rightarrow> (base_exception + 'a) \<times> world)
   \<Rightarrow> (base_exception + 'a) \<times> world"
where
  "print_exception_then w literal e rest =
     (case print_exception w literal e of Inl e' \<Rightarrow> (Inl e', w) | Inr w' \<Rightarrow> rest w')"

text \<open>
  The prompt of \<open>input(s)\<close> is written as it is; the four prompts of \<open>main\<close> are ASCII
  literals.
\<close>

definition prompt :: "world \<Rightarrow> string \<Rightarrow> world" where
  "prompt w s = w\<lparr>stdout := stdout w @ [s]\<rparr>"

subsection \<open>try and except\<close>

text \<open>
  \<open>try: body except Exception as e: handler\<close>. The body has run to a value or to an
  exception, in the world it left; the handler gets \<open>str(e)\<close>, and what it raises itself
  goes to the caller. An exception that is not an instance of \<open>Exception\<close> goes on to the
  caller as well.
\<close>

definition except_Exception ::
  "(base_exception + 'a) \<times> world \<Rightarrow> (string \<Rightarrow> world \<Rightarrow> (base_exception + 'a) \<times> world)
   \<Rightarrow> (base_exception + 'a) \<times> world"
where
  "except_Exception body handler =
     (case body of
        (Inl (Exception msg), w) \<Rightarrow> handler msg w
      | (Inl e, w) \<Rightarrow> (Inl e, w)
      | (Inr v, w) \<Rightarrow> (Inr v, w))"

subsection \<open>The object store\<close>

text \<open>
  Modelled from the spec: the object store behind \<open>blob_client.upload_blob(data, overwrite)\<close>
  is a service outside the repository. "Overwrite-on-conflict semantics": a request that
  the service accepts puts the data at the key, replacing the object there; without
  \<open>overwrite\<close> an existing key is a conflict. A failed request leaves the store as it was.
\<close>

definition upload_blob :: "world \<Rightarrow> string \<Rightarrow> bytes \<Rightarrow> bool \<Rightarrow> base_exception + world" where
  "upload_blob w blob_name data overwrite =
     (case upload_fault w blob_name data of
        Some e \<Rightarrow> Inl e
      | None \<Rightarrow>
          if \<not> overwrite \<and> blobs w blob_name \<noteq> None
          then Inl (Exception ''ResourceExistsError'')
          else Inr (w\<lparr>blobs := (blobs w)(blob_name \<mapsto> data)\<rparr>))"

section \<open>Function 1: upload_file (lines 45 to 82)\<close>

text \<open>The two lines printed before the upload, lines 51 and 66.\<close>

definition authenticating_line :: "string \<Rightarrow> string" where
  "authenticating_line username =
     ''\<newline>--- Authenticating Upload for User: '' @ username @ '' ---''"

definition uploading_line :: "string \<Rightarrow> string \<Rightarrow> string" where
  "uploading_line filename blob_name =
     ''Uploading '' @ quote @ filename @ quote @ '' to '' @ quote @ blob_name @ quote @ ''...''"

text \<open>
  The body of the \<open>try\<close>, lines 51 to 75. The two lines of lines 73 and 74 begin with the
  characters U+2705, and U+26A0 U+FE0F; they are printed after the upload.
\<close>

definition upload_file_body ::
  "config \<Rightarrow> world \<Rightarrow> string \<Rightarrow> string \<Rightarrow> (base_exception + bool) \<times> world"
where
  "upload_file_body cfg w username local_file_path =
     print_then w (authenticating_line username) (\<lambda>w1.
       case container_client w1 (STORAGE_ACCOUNT_URL cfg) (CONTAINER_NAME cfg) of
         Some e \<Rightarrow> (Inl e, w1)
       | None \<Rightarrow>
           let filename = os_path_basename w1 local_file_path;
               blob_name = username @ ''/'' @ filename
           in print_then w1 (uploading_line filename blob_name) (\<lambda>w2.
                case blob_client w2 blob_name of
                  Some e \<Rightarrow> (Inl e, w2)
                | None \<Rightarrow>
                    (case open_rb w2 local_file_path of
                       Inl e \<Rightarrow> (Inl e, w2)
                     | Inr data \<Rightarrow>
                         (case upload_blob w2 blob_name data True of
                            Inl e \<Rightarrow> (Inl e, w2)
                          | Inr w3 \<Rightarrow>
                              print_then w3
                                ([CHR 0xE2, CHR 0x9C, CHR 0x85] @ '' Upload Successful!'') (\<lambda>w4.
                              print_then w4
                                ([CHR 0xE2, CHR 0x9A, CHR 0xA0, CHR 0xEF, CHR 0xB8, CHR 0x8F] @
                                 ''  REMINDER: You must run the Azure AI Search Indexer manually for this file to appear in search.'') (\<lambda>w5.
                              (Inr True, w5)))))))"

text \<open>The handler, lines 77 to 82. Its first line begins with the character U+274C.\<close>

definition upload_file_handler :: "string \<Rightarrow> world \<Rightarrow> (base_exception + bool) \<times> world" where
  "upload_file_handler e w =
     print_exception_then w ([CHR 0xE2, CHR 0x9D, CHR 0x8C] @ '' Upload Failed: '') e (\<lambda>w1.
     print_then w1 ''\<newline>[TROUBLESHOOTING]'' (\<lambda>w2.
     print_then w2 ''1. Did you run 'az login' in your terminal?'' (\<lambda>w3.
     print_then w3
       ''2. Does your account have 'Storage Blob Data Contributor' role on this storage account?''
       (\<lambda>w4.
     (Inr False, w4)))))"

definition upload_file ::
  "config \<Rightarrow> world \<Rightarrow> string \<Rightarrow> string \<Rightarrow> (base_exception + bool) \<times> world"
where
  "upload_file cfg w username local_file_path =
     except_Exception (upload_file_body cfg w username local_file_path) upload_file_handler"

section \<open>Function 2: search_documents (lines 89 to 129)\<close>

definition user_folder_url_prefix :: "config \<Rightarrow> string \<Rightarrow> string" where
  "user_folder_url_prefix cfg username =
     fmt (STORAGE_ACCOUNT_URL cfg) @ ''/'' @ fmt (CONTAINER_NAME cfg) @ ''/'' @ username @ ''/''"

definition upper_bound :: "config \<Rightarrow> string \<Rightarrow> string" where
  "upper_bound cfg username = user_folder_url_prefix cfg username @ ''~''"

definition filter_expression :: "config \<Rightarrow> string \<Rightarrow> string" where
  "filter_expression cfg username =
     ''metadata_storage_path ge '' @ quote @ user_folder_url_prefix cfg username @ quote @
     '' and '' @
     ''metadata_storage_path lt '' @ quote @ upper_bound cfg username @ quote"

text \<open>
  What the filter expression says of a value of \<open>metadata_storage_path\<close>: \<open>ge\<close> and \<open>lt\<close>
  are \<open>\<ge>\<close> and \<open><\<close> on strings, against the two bounds of lines 102 and 103.
\<close>

definition filter_matches :: "config \<Rightarrow> string \<Rightarrow> string \<Rightarrow> bool" where
  "filter_matches cfg username path =
     (user_folder_url_prefix cfg username \<le> path \<and> path < upper_bound cfg username)"

text \<open>The dict of lines 119 to 122.\<close>

definition to_document :: "search_result \<Rightarrow> document" where
  "to_document result =
     [''content'' \<mapsto> result ''content'', ''source'' \<mapsto> result ''metadata_storage_path'']"

text \<open>The two lines printed around the search, lines 94 and 124.\<close>

definition searching_line :: "config \<Rightarrow> string \<Rightarrow> string" where
  "searching_line cfg query =
     ''--- Searching index '' @ quote @ fmt (SEARCH_INDEX_NAME cfg) @ quote @
     '' for: '' @ quote @ query @ quote @ '' ---''"

definition found_line :: "nat \<Rightarrow> string \<Rightarrow> string" where
  "found_line n username =
     ''Found '' @ str_nat n @ '' relevant documents for user '' @ quote @ username @ quote @ ''.''"

text \<open>The body of the \<open>try\<close>, lines 94 to 125.\<close>

definition search_documents_body ::
  "config \<Rightarrow> world \<Rightarrow> string \<Rightarrow> string \<Rightarrow> int \<Rightarrow> (base_exception + document list) \<times> world"
where
  "search_documents_body cfg w username query top_k =
     print_then w (searching_line cfg query) (\<lambda>w1.
       case search_client w1 (SEARCH_ENDPOINT cfg) (SEARCH_INDEX_NAME cfg) (SEARCH_API_KEY cfg) of
         Some e \<Rightarrow> (Inl e, w1)
       | None \<Rightarrow>
           let request = \<lparr>req_search_text = query,
                          req_filter = filter_expression cfg username,
                          req_select = [''content'', ''metadata_storage_path''],
                          req_top = top_k\<rparr>;
               w2 = w1\<lparr>search_log := search_log w1 @ [request]\<rparr>
           in case search_service w2 request of
                Inl e \<Rightarrow> (Inl e, w2)
              | Inr results \<Rightarrow>
                  let documents = map to_document results in
                  print_then w2 (found_line (length documents) username) (\<lambda>w3.
                    (Inr documents, w3)))"

text \<open>The handler, lines 127 to 129.\<close>

definition search_documents_handler ::
  "string \<Rightarrow> world \<Rightarrow> (base_exception + document list) \<times> world"
where
  "search_documents_handler e w =
     print_exception_then w ''ERROR: Search failed. Details: '' e (\<lambda>w1. (Inr [], w1))"

definition search_documents ::
  "config \<Rightarrow> world \<Rightarrow> string \<Rightarrow> string \<Rightarrow> int \<Rightarrow> (base_exception + document list) \<times> world"
where
  "search_documents cfg w username query top_k =
     except_Exception (search_documents_body cfg w username query top_k) search_documents_handler"

text \<open>The call that leaves \<open>top_k\<close> to its default (line 89), as \<open>main\<close> does (line 203).\<close>

definition search_documents_default ::
  "config \<Rightarrow> world \<Rightarrow> string \<Rightarrow> string \<Rightarrow> (base_exception + document list) \<times> world"
where
  "search_documents_default cfg w username query = search_documents cfg w username query 3"

section \<open>Function 3: generate_rag_answer (lines 136 to 164)\<close>

text \<open>
  The list comprehension of line 143. \<open>doc['source']\<close> is read before \<open>doc['content']\<close>, and
  a missing key raises KeyError, whose \<open>str\<close> is the quoted key.
\<close>

definition format_doc :: "document \<Rightarrow> base_exception + string" where
  "format_doc doc =
     (case doc ''source'' of
        None \<Rightarrow> Inl (Exception (quote @ ''source'' @ quote))
      | Some source \<Rightarrow>
          (case doc ''content'' of
             None \<Rightarrow> Inl (Exception (quote @ ''content'' @ quote))
           | Some content \<Rightarrow>
               Inr (''Source: '' @ fmt source @ ''\<newline>Content: '' @ fmt content)))"

fun format_docs :: "document list \<Rightarrow> base_exception + string list" where
  "format_docs [] = Inr []"
| "format_docs (doc # docs) =
     (case format_doc doc of
        Inl e \<Rightarrow> Inl e
      | Inr s \<Rightarrow> (case format_docs docs of Inl e \<Rightarrow> Inl e | Inr ss \<Rightarrow> Inr (s # ss)))"

text \<open>The arguments of the request, lines 152 to 157.\<close>

definition chat_request_of :: "config \<Rightarrow> string \<Rightarrow> string \<Rightarrow> chat_request" where
  "chat_request_of cfg context_text user_question =
     \<lparr>req_model = OPENAI_DEPLOYMENT cfg,
      req_messages =
        [(''system'', ''You are a helpful assistant. Answer based only on context.''),
         (''user'', ''Context:\<newline>'' @ context_text @ ''\<newline>\<newline>Question: '' @ user_question)],
      req_temperature = 7 / 10\<rparr>"

text \<open>
  The body of the \<open>try\<close>, lines 138 to 160. \<open>response.choices[0]\<close> raises IndexError on an
  empty list; the \<open>content\<close> of a message may be \<open>None\<close>.
\<close>

definition generate_rag_answer_body ::
  "config \<Rightarrow> world \<Rightarrow> string \<Rightarrow> document list \<Rightarrow> (base_exception + string option) \<times> world"
where
  "generate_rag_answer_body cfg w user_question context_docs =
     print_then w ''--- Generating answer with Azure OpenAI... ---'' (\<lambda>w1.
       if context_docs = [] then
         (Inr (Some ''No relevant documents found. (Did the Indexer run?)''), w1)
       else
         case format_docs context_docs of
           Inl e \<Rightarrow> (Inl e, w1)
         | Inr parts \<Rightarrow>
             let context_text = join ''\<newline>\<newline>'' parts in
             case openai_client w1 (OPENAI_ENDPOINT cfg) (OPENAI_API_KEY cfg) (OPENAI_API_VERSION cfg) of
               Some e \<Rightarrow> (Inl e, w1)
             | None \<Rightarrow>
                 let request = chat_request_of cfg context_text user_question;
                     w2 = w1\<lparr>chat_log := chat_log w1 @ [request]\<rparr>
                 in case chat_service w2 request of
                      Inl e \<Rightarrow> (Inl e, w2)
                    | Inr choices \<Rightarrow>
                        (case choices of
                           [] \<Rightarrow> (Inl (Exception ''list index out of range''), w2)
                         | content # _ \<Rightarrow> (Inr content, w2)))"

text \<open>The handler, lines 162 to 164.\<close>

definition generate_rag_answer_handler ::
  "string \<Rightarrow> world \<Rightarrow> (base_exception + string option) \<times> world"
where
  "generate_rag_answer_handler e w =
     print_exception_then w ''ERROR: OpenAI generation failed. Details: '' e (\<lambda>w1.
       (Inr (Some ''Error generating answer.''), w1))"

definition generate_rag_answer ::
  "config \<Rightarrow> world \<Rightarrow> string \<Rightarrow> document list \<Rightarrow> (base_exception + string option) \<times> world"
where
  "generate_rag_answer cfg w user_question context_docs =
     except_Exception (generate_rag_answer_body cfg w user_question context_docs)
       generate_rag_answer_handler"

section \<open>main (lines 171 to 209)\<close>

text \<open>
  Standard input is the list of the lines still to be read; \<open>input\<close> writes its prompt, then
  takes the first line, and raises EOFError when there is none. \<open>main\<close> catches nothing.

  The question loop, lines 194 to 209: one line is read in each round.
\<close>

fun question_loop ::
  "config \<Rightarrow> string \<Rightarrow> string list \<Rightarrow> world \<Rightarrow> (base_exception + unit) \<times> world"
where
  "question_loop cfg current_username [] w =
     print_then w (''\<newline>'' @ replicate 60 (CHR ''='')) (\<lambda>w0.
       (Inl (Exception ''EOF when reading a line''),
        prompt w0 ''Ask a question (or type 'exit'): ''))"
| "question_loop cfg current_username (line # stdin) w =
     print_then w (''\<newline>'' @ replicate 60 (CHR ''='')) (\<lambda>w0.
       let w1 = prompt w0 ''Ask a question (or type 'exit'): '';
           user_query = strip line
       in if lower user_query \<in> set [''exit'', ''quit''] then (Inr (), w1)
          else if user_query = [] then question_loop cfg current_username stdin w1
          else
            case search_documents_default cfg w1 current_username user_query of
              (Inl e, w2) \<Rightarrow> (Inl e, w2)
            | (Inr docs, w2) \<Rightarrow>
                (case generate_rag_answer cfg w2 user_query docs of
                   (Inl e, w3) \<Rightarrow> (Inl e, w3)
                 | (Inr answer, w3) \<Rightarrow>
                     print_then w3 (''\<newline>'' @ replicate 30 (CHR ''-'')) (\<lambda>w4.
                     print_then w4 ''AI ANSWER:'' (\<lambda>w5.
                     print_then w5 (fmt answer) (\<lambda>w6.
                     print_then w6 (replicate 30 (CHR ''-'')) (\<lambda>w7.
                     question_loop cfg current_username stdin w7))))))"

text \<open>
  The optional upload, lines 184 to 191, then the loop. The line of line 191 begins with
  the character U+274C.
\<close>

definition upload_step ::
  "config \<Rightarrow> string \<Rightarrow> string list \<Rightarrow> world \<Rightarrow> (base_exception + unit) \<times> world"
where
  "upload_step cfg current_username stdin w =
     (let w1 = prompt w ''Enter the full path to your PDF file: '' in
      case stdin of
        [] \<Rightarrow> (Inl (Exception ''EOF when reading a line''), w1)
      | line # stdin' \<Rightarrow>
          let file_path = replace (replace (strip line) (CHR 0x22)) (CHR 0x27) in
          if path_exists w1 file_path then
            (case upload_file cfg w1 current_username file_path of
               (Inl e, w2) \<Rightarrow> (Inl e, w2)
             | (Inr uploaded, w2) \<Rightarrow> question_loop cfg current_username stdin' w2)
          else
            print_then w1 ([CHR 0xE2, CHR 0x9D, CHR 0x8C] @ '' File not found.'') (\<lambda>w2.
              question_loop cfg current_username stdin' w2))"

definition main :: "config \<Rightarrow> string list \<Rightarrow> world \<Rightarrow> (base_exception + unit) \<times> world" where
  "main cfg stdin w =
     print_then w (replicate 60 (CHR ''='')) (\<lambda>w1.
     print_then w1 ''      STUDENT PDF RAG SYSTEM (Identity Auth)      '' (\<lambda>w2.
     print_then w2 (replicate 60 (CHR ''='')) (\<lambda>w3.
       let w4 = prompt w3 ''Enter your username (e.g., Dheeraj): '' in
       case stdin of
         [] \<Rightarrow> (Inl (Exception ''EOF when reading a line''), w4)
       | line1 # stdin1 \<Rightarrow>
           let current_username = strip line1 in
           if current_username = [] then (Inr (), w4)
           else
             print_then w4 (replicate 60 (CHR ''-'')) (\<lambda>w5.
               let w6 = prompt w5 ''Do you want to upload a new PDF file? (yes/no): '' in
               case stdin1 of
                 [] \<Rightarrow> (Inl (Exception ''EOF when reading a line''), w6)
               | line2 # stdin2 \<Rightarrow>
                   let upload_choice = strip (lower line2) in
                   if upload_choice \<in> set [''yes'', ''y'']
                   then upload_step cfg current_username stdin2 w6
                   else question_loop cfg current_username stdin2 w6))))"

section \<open>A concrete configuration and world\<close>

text \<open>
  User \<open>alice\<close> has the local file \<open>/home/alice/notes.pdf\<close> on a POSIX system with a UTF-8
  terminal; every service answers, the search service with its two indexed documents, cut
  to the requested \<open>top\<close>.
\<close>

definition example_config :: config where
  "example_config =
     \<lparr>STORAGE_ACCOUNT_URL = Some ''https://acct.blob.core.windows.net'',
      CONTAINER_NAME = Some ''docs'',
      SEARCH_ENDPOINT = Some ''https://srch.search.windows.net'',
      SEARCH_INDEX_NAME = Some ''idx'',
      SEARCH_API_KEY = Some ''key'',
      OPENAI_ENDPOINT = Some ''https://oai.openai.azure.com'',
      OPENAI_API_KEY = Some ''key'',
      OPENAI_DEPLOYMENT = Some ''gpt'',
      OPENAI_API_VERSION = Some ''2024-02-01''\<rparr>"

definition example_results :: "search_result list" where
  "example_results =
     [[''content'' \<mapsto> ''Refunds within 30 days.'',
       ''metadata_storage_path'' \<mapsto> ''https://acct.blob.core.windows.net/docs/alice/notes.pdf''],
      [''metadata_storage_path'' \<mapsto> ''https://acct.blob.core.windows.net/docs/alice/faq.pdf'']]"

definition example_world :: world where
  "example_world =
     \<lparr>stdout = [],
      stdout_encodes = (\<lambda>text. True),
      os_path_basename = posixpath_basename,
      path_exists = (\<lambda>p. p = ''/home/alice/notes.pdf''),
      open_rb = (\<lambda>p. if p = ''/home/alice/notes.pdf'' then Inr ''%PDF first''
                      else Inl (Exception ''No such file or directory'')),
      container_client = (\<lambda>url container. None),
      blob_client = (\<lambda>blob_name. None),
      upload_fault = (\<lambda>blob_name data. None),
      blobs = Map.empty,
      search_client = (\<lambda>endpoint index key. None),
      search_service = (\<lambda>request. Inr (take (nat (req_top request)) example_results)),
      search_log = [],
      openai_client = (\<lambda>endpoint key version. None),
      chat_service = (\<lambda>request. Inr [Some ''Refunds are accepted within 30 days.'']),
      chat_log = []\<rparr>"

text \<open>
  The same world after \<open>alice\<close> has uploaded \<open>/home/alice/notes.pdf\<close>, once the local files
  have changed: every path now opens on newer bytes.
\<close>

definition example_world_later :: world where
  "example_world_later =
     (snd (upload_file example_config example_world ''alice'' ''/home/alice/notes.pdf''))
       \<lparr>open_rb := \<lambda>p. Inr ''%PDF second''\<rparr>"


definition example_world_ascii_stdout :: world where
  "example_world_ascii_stdout = example_world\<lparr>stdout_encodes := \<lambda>text. False\<rparr>"

section \<open>Auxiliary facts\<close>

subsection \<open>The lexicographic order and prefixes\<close>

lemma append_less_cancel: "(xs @ ys < xs @ zs) = (ys < (zs::'a::linorder list))"
  by (induction xs) simp_all

lemma le_append_self: "xs \<le> xs @ (ys::'a::linorder list)"
  by (induction xs) simp_all

lemma less_singleton: "(t < [c]) = (t = [] \<or> hd t < (c::'a::linorder))"
  by (cases t) simp_all

lemma not_prefix_outside:
  "\<not> prefix p s \<Longrightarrow> p \<le> s \<Longrightarrow> \<not> s < p @ [c::'a::linorder]"
proof (induction p arbitrary: s)
  case Nil
  then show ?case by simp
next
  case (Cons a p)
  then show ?case by (cases s) (auto split: if_splits)
qed

lemma sentinel_range:
  "(p \<le> s \<and> s < p @ [c]) = (\<exists>t. s = p @ t \<and> (t = [] \<or> hd t < (c::'a::linorder)))"
proof
  assume inside: "p \<le> s \<and> s < p @ [c]"
  then have "prefix p s" using not_prefix_outside by blast
  then obtain t where t: "s = p @ t" by (auto simp: prefix_def)
  with inside have "t < [c]" using append_less_cancel [of p t "[c]"] by simp
  with t show "\<exists>t. s = p @ t \<and> (t = [] \<or> hd t < c)" by (auto simp: less_singleton)
next
  assume "\<exists>t. s = p @ t \<and> (t = [] \<or> hd t < c)"
  then obtain t where t: "s = p @ t" "t = [] \<or> hd t < c" by blast
  then have "t < [c]" by (simp add: less_singleton)
  then show "p \<le> s \<and> s < p @ [c]" using t by (simp add: append_less_cancel le_append_self)
qed

subsection \<open>The basename of posixpath\<close>

lemma posixpath_basename_no_slash: "CHR ''/'' \<notin> set (posixpath_basename p)"
  by (auto simp: posixpath_basename_def dest: set_takeWhileD)

lemma posixpath_basename_split:
  "\<exists>dir. p = dir @ posixpath_basename p \<and> (dir = [] \<or> last dir = CHR ''/'')"
proof -
  let ?P = "\<lambda>c. c \<noteq> CHR ''/''"
  have parts: "rev p = takeWhile ?P (rev p) @ dropWhile ?P (rev p)" by simp
  have "p = rev (rev p)" by simp
  also have "\<dots> = rev (dropWhile ?P (rev p)) @ rev (takeWhile ?P (rev p))"
    by (subst parts) (simp only: rev_append)
  finally have p: "p = rev (dropWhile ?P (rev p)) @ posixpath_basename p" by (simp add: posixpath_basename_def)
  have "dropWhile ?P (rev p) = [] \<or> hd (dropWhile ?P (rev p)) = CHR ''/''"
    using hd_dropWhile [of ?P "rev p"] by auto
  then have "rev (dropWhile ?P (rev p)) = [] \<or> last (rev (dropWhile ?P (rev p))) = CHR ''/''"
    by (auto simp: last_rev)
  with p show ?thesis by blast
qed

subsection \<open>Printing\<close>

lemma is_ascii_simps [simp]:
  "is_ascii []"
  "is_ascii (c # s) = (c < CHR 0x80 \<and> is_ascii s)"
  "is_ascii (s @ t) = (is_ascii s \<and> is_ascii t)"
  by (simp_all add: is_ascii_def)

lemma is_ascii_replicate [simp]: "is_ascii (replicate n c) = (n = 0 \<or> c < CHR 0x80)"
  by (induction n) auto

lemma encodable_frame [simp]:
  "encodable (w\<lparr>stdout := out\<rparr>) = encodable w"
  "encodable (w\<lparr>blobs := store\<rparr>) = encodable w"
  "encodable (w\<lparr>search_log := requests\<rparr>) = encodable w"
  "encodable (w\<lparr>chat_log := chats\<rparr>) = encodable w"
  by (simp_all add: encodable_def fun_eq_iff)

lemma print_then_encodable:
  "encodable w s \<Longrightarrow>
   print_then w s rest = rest (w\<lparr>stdout := stdout w @ [s @ ''\<newline>'']\<rparr>)"
  by (simp add: print_then_def print_def)


lemma print_then_ascii [simp]:
  "is_ascii s \<Longrightarrow> print_then w s rest = rest (w\<lparr>stdout := stdout w @ [s @ ''\<newline>'']\<rparr>)"
  by (simp add: print_then_encodable encodable_def)

lemma print_exception_then_encodable:
  "encodable w literal \<Longrightarrow>
   print_exception_then w literal e rest =
     rest (w\<lparr>stdout := stdout w @ [literal @ e @ ''\<newline>'']\<rparr>)"
  by (simp add: print_exception_then_def print_exception_def)

lemma print_exception_then_not_encodable:
  "\<not> encodable w literal \<Longrightarrow>
   print_exception_then w literal e rest = (Inl (Exception ''UnicodeEncodeError''), w)"
  by (simp add: print_exception_then_def print_exception_def)

lemma print_exception_then_ascii [simp]:
  "is_ascii literal \<Longrightarrow>
   print_exception_then w literal e rest =
     rest (w\<lparr>stdout := stdout w @ [literal @ e @ ''\<newline>'']\<rparr>)"
  by (simp add: print_exception_then_encodable encodable_def)

subsection \<open>The handlers of search_documents and generate_rag_answer\<close>

text \<open>Their one line begins with an ASCII literal, so they return their value.\<close>

lemma search_documents_handler_returns [simp]:
  "search_documents_handler e w =
     (Inr [], w\<lparr>stdout := stdout w @ [''ERROR: Search failed. Details: '' @ e @ ''\<newline>'']\<rparr>)"
  by (simp add: search_documents_handler_def)

lemma generate_rag_answer_handler_returns [simp]:
  "generate_rag_answer_handler e w =
     (Inr (Some ''Error generating answer.''),
      w\<lparr>stdout := stdout w @ [''ERROR: OpenAI generation failed. Details: '' @ e @ ''\<newline>'']\<rparr>)"
  by (simp add: generate_rag_answer_handler_def)

lemma except_Exception_simps [simp]:
  "except_Exception (Inl (Exception msg), w) h = h msg w"
  "except_Exception (Inl KeyboardInterrupt, w) h = (Inl KeyboardInterrupt, w)"
  "except_Exception (Inl SystemExit, w) h = (Inl SystemExit, w)"
  "except_Exception (Inr v, w) h = (Inr v, w)"
  by (simp_all add: except_Exception_def)




text \<open>
  What \<open>except Exception\<close> lets through: an interrupt that arrives while the search client
  is made reaches the caller of \<open>search_documents\<close>.
\<close>

lemma search_documents_interrupted:
  "encodable w (searching_line cfg query) \<Longrightarrow>
   search_client w (SEARCH_ENDPOINT cfg) (SEARCH_INDEX_NAME cfg) (SEARCH_API_KEY cfg)
     = Some KeyboardInterrupt \<Longrightarrow>
   fst (search_documents cfg w username query top_k) = Inl KeyboardInterrupt"
  by (simp add: search_documents_def search_documents_body_def print_then_encodable)

subsection \<open>The store after upload_file\<close>

lemma print_then_if:
  "print_then w s rest =
     (if encodable w s then rest (w\<lparr>stdout := stdout w @ [s @ ''\<newline>'']\<rparr>)
      else (Inl (Exception ''UnicodeEncodeError''), w))"
  by (simp add: print_then_def print_def)

lemma print_exception_then_if:
  "print_exception_then w literal e rest =
     (if encodable w literal then rest (w\<lparr>stdout := stdout w @ [literal @ e @ ''\<newline>'']\<rparr>)
      else (Inl (Exception ''UnicodeEncodeError''), w))"
  by (simp add: print_exception_then_def print_exception_def)

text \<open>The handler of \<open>upload_file\<close> only prints, and never returns \<open>True\<close>.\<close>

lemma upload_file_handler_frame [simp]:
  "blobs (snd (upload_file_handler e w)) = blobs w"
  "container_client (snd (upload_file_handler e w)) = container_client w"
  "blob_client (snd (upload_file_handler e w)) = blob_client w"
  "upload_fault (snd (upload_file_handler e w)) = upload_fault w"
  "open_rb (snd (upload_file_handler e w)) = open_rb w"
  "os_path_basename (snd (upload_file_handler e w)) = os_path_basename w"
  "stdout_encodes (snd (upload_file_handler e w)) = stdout_encodes w"
  by (simp_all add: upload_file_handler_def print_exception_then_if)

lemma upload_file_handler_not_True: "fst (upload_file_handler e w) \<noteq> Inr True"
  by (simp add: upload_file_handler_def print_exception_then_if)

text \<open>
  The body of \<open>upload_file\<close> leaves the store as it was, or with the bytes of the file at the
  key; the latter when it returns, and as soon as the steps up to the upload succeed.
\<close>

lemma upload_file_body_blobs:
  "blobs (snd (upload_file_body cfg w username local_file_path)) = blobs w \<or>
   (\<exists>data. open_rb w local_file_path = Inr data \<and>
      blobs (snd (upload_file_body cfg w username local_file_path)) =
        (blobs w)(username @ ''/'' @ os_path_basename w local_file_path \<mapsto> data))"
  by (simp add: upload_file_body_def print_then_if upload_blob_def Let_def
        split: option.splits sum.splits)

lemma upload_file_body_frame [simp]:
  "container_client (snd (upload_file_body cfg w username local_file_path)) = container_client w"
  "blob_client (snd (upload_file_body cfg w username local_file_path)) = blob_client w"
  "upload_fault (snd (upload_file_body cfg w username local_file_path)) = upload_fault w"
  "open_rb (snd (upload_file_body cfg w username local_file_path)) = open_rb w"
  "os_path_basename (snd (upload_file_body cfg w username local_file_path)) = os_path_basename w"
  "stdout_encodes (snd (upload_file_body cfg w username local_file_path)) = stdout_encodes w"
  by (simp_all add: upload_file_body_def print_then_if upload_blob_def Let_def
        split: option.splits sum.splits)

lemma upload_file_body_returns:
  "fst (upload_file_body cfg w username local_file_path) = Inr v \<Longrightarrow>
   \<exists>data. open_rb w local_file_path = Inr data \<and>
     blobs (snd (upload_file_body cfg w username local_file_path)) =
       (blobs w)(username @ ''/'' @ os_path_basename w local_file_path \<mapsto> data)"
  by (simp add: upload_file_body_def print_then_if upload_blob_def Let_def
        split: option.splits sum.splits if_splits)

lemma upload_file_body_stores:
  "encodable w (authenticating_line username) \<Longrightarrow>
   container_client w (STORAGE_ACCOUNT_URL cfg) (CONTAINER_NAME cfg) = None \<Longrightarrow>
   encodable w (uploading_line (os_path_basename w local_file_path)
     (username @ ''/'' @ os_path_basename w local_file_path)) \<Longrightarrow>
   blob_client w (username @ ''/'' @ os_path_basename w local_file_path) = None \<Longrightarrow>
   open_rb w local_file_path = Inr data \<Longrightarrow>
   upload_fault w (username @ ''/'' @ os_path_basename w local_file_path) data = None \<Longrightarrow>
   blobs (snd (upload_file_body cfg w username local_file_path)) =
     (blobs w)(username @ ''/'' @ os_path_basename w local_file_path \<mapsto> data)"
  by (simp add: upload_file_body_def print_then_if upload_blob_def Let_def)

text \<open>\<open>upload_file\<close> changes the store as its body does.\<close>

lemma upload_file_snd_cases:
  "snd (upload_file cfg w username local_file_path) =
     snd (upload_file_body cfg w username local_file_path) \<or>
   (\<exists>msg. snd (upload_file cfg w username local_file_path) =
      snd (upload_file_handler msg (snd (upload_file_body cfg w username local_file_path))))"
proof (cases "upload_file_body cfg w username local_file_path")
  case (Pair r w')
  show ?thesis
  proof (cases r)
    case (Inl e)
    with Pair show ?thesis by (cases e) (auto simp: upload_file_def)
  qed (simp add: upload_file_def Pair)
qed

lemma upload_file_blobs_body:
  "blobs (snd (upload_file cfg w username local_file_path)) =
   blobs (snd (upload_file_body cfg w username local_file_path))"
  using upload_file_snd_cases [of cfg w username local_file_path] by auto

lemma upload_file_frame:
  "container_client (snd (upload_file cfg w username local_file_path)) = container_client w"
  "blob_client (snd (upload_file cfg w username local_file_path)) = blob_client w"
  "upload_fault (snd (upload_file cfg w username local_file_path)) = upload_fault w"
  "open_rb (snd (upload_file cfg w username local_file_path)) = open_rb w"
  "os_path_basename (snd (upload_file cfg w username local_file_path)) = os_path_basename w"
  "stdout_encodes (snd (upload_file cfg w username local_file_path)) = stdout_encodes w"
  using upload_file_snd_cases [of cfg w username local_file_path] by auto

lemma upload_file_True_body:
  "fst (upload_file cfg w username local_file_path) = Inr True \<Longrightarrow>
   fst (upload_file_body cfg w username local_file_path) = Inr True"
proof (cases "upload_file_body cfg w username local_file_path")
  case (Pair r w')
  assume ok: "fst (upload_file cfg w username local_file_path) = Inr True"
  show ?thesis
  proof (cases r)
    case (Inl e)
    with ok Pair show ?thesis
      by (cases e) (simp_all add: upload_file_def upload_file_handler_not_True)
  next
    case (Inr v)
    with ok Pair show ?thesis by (simp add: upload_file_def)
  qed
qed

lemma upload_file_True_blobs:
  "fst (upload_file cfg w username local_file_path) = Inr True \<Longrightarrow>
   \<exists>data. open_rb w local_file_path = Inr data \<and>
     blobs (snd (upload_file cfg w username local_file_path)) =
       (blobs w)(username @ ''/'' @ os_path_basename w local_file_path \<mapsto> data)"
  using upload_file_body_returns [of cfg w username local_file_path True]
  by (simp add: upload_file_blobs_body upload_file_True_body)

lemma upload_file_blobs_cases:
  "blobs (snd (upload_file cfg w username local_file_path)) = blobs w \<or>
   (\<exists>data. open_rb w local_file_path = Inr data \<and>
      blobs (snd (upload_file cfg w username local_file_path)) =
        (blobs w)(username @ ''/'' @ os_path_basename w local_file_path \<mapsto> data))"
  using upload_file_body_blobs [of cfg w username local_file_path]
  by (simp add: upload_file_blobs_body)

lemma upload_file_stores:
  "encodable w (authenticating_line username) \<Longrightarrow>
   container_client w (STORAGE_ACCOUNT_URL cfg) (CONTAINER_NAME cfg) = None \<Longrightarrow>
   encodable w (uploading_line (os_path_basename w local_file_path)
     (username @ ''/'' @ os_path_basename w local_file_path)) \<Longrightarrow>
   blob_client w (username @ ''/'' @ os_path_basename w local_file_path) = None \<Longrightarrow>
   open_rb w local_file_path = Inr data \<Longrightarrow>
   upload_fault w (username @ ''/'' @ os_path_basename w local_file_path) data = None \<Longrightarrow>
   blobs (snd (upload_file cfg w username local_file_path)) =
     (blobs w)(username @ ''/'' @ os_path_basename w local_file_path \<mapsto> data)"
  by (simp add: upload_file_blobs_body upload_file_body_stores)

text \<open>On a standard output that encodes every text, an upload whose steps succeed returns \<open>True\<close>.\<close>

lemma upload_file_succeeds:
  "stdout_encodes w = (\<lambda>text. True) \<Longrightarrow>
   container_client w (STORAGE_ACCOUNT_URL cfg) (CONTAINER_NAME cfg) = None \<Longrightarrow>
   blob_client w (username @ ''/'' @ os_path_basename w local_file_path) = None \<Longrightarrow>
   open_rb w local_file_path = Inr data \<Longrightarrow>
   upload_fault w (username @ ''/'' @ os_path_basename w local_file_path) data = None \<Longrightarrow>
   fst (upload_file cfg w username local_file_path) = Inr True"
  by (simp add: upload_file_def upload_file_body_def print_then_if upload_blob_def Let_def
        encodable_def)

text \<open>
  On a standard output that encodes every text, \<open>upload_file\<close> returns \<open>False\<close> when a step
  raises an \<open>Exception\<close>.
\<close>

lemma upload_file_fails:
  assumes "stdout_encodes w = (\<lambda>text. True)"
  shows "container_client w (STORAGE_ACCOUNT_URL cfg) (CONTAINER_NAME cfg) = Some (Exception msg)
      \<Longrightarrow> fst (upload_file cfg w username local_file_path) = Inr False"
    and "container_client w (STORAGE_ACCOUNT_URL cfg) (CONTAINER_NAME cfg) = None \<Longrightarrow>
      blob_client w (username @ ''/'' @ os_path_basename w local_file_path) = Some (Exception msg)
      \<Longrightarrow> fst (upload_file cfg w username local_file_path) = Inr False"
    and "container_client w (STORAGE_ACCOUNT_URL cfg) (CONTAINER_NAME cfg) = None \<Longrightarrow>
      blob_client w (username @ ''/'' @ os_path_basename w local_file_path) = None \<Longrightarrow>
      open_rb w local_file_path = Inl (Exception msg)
      \<Longrightarrow> fst (upload_file cfg w username local_file_path) = Inr False"
    and "container_client w (STORAGE_ACCOUNT_URL cfg) (CONTAINER_NAME cfg) = None \<Longrightarrow>
      blob_client w (username @ ''/'' @ os_path_basename w local_file_path) = None \<Longrightarrow>
      open_rb w local_file_path = Inr data \<Longrightarrow>
      upload_fault w (username @ ''/'' @ os_path_basename w local_file_path) data
        = Some (Exception msg)
      \<Longrightarrow> fst (upload_file cfg w username local_file_path) = Inr False"
  using assms
  by (simp_all add: upload_file_def upload_file_body_def upload_file_handler_def upload_blob_def
        print_then_if print_exception_then_if encodable_def Let_def)

subsection \<open>The requests and the result of search_documents\<close>

lemma search_documents_sends:
  "encodable w (searching_line cfg query) \<and>
   search_client w (SEARCH_ENDPOINT cfg) (SEARCH_INDEX_NAME cfg) (SEARCH_API_KEY cfg) = None \<Longrightarrow>
   search_log (snd (search_documents cfg w username query top_k)) =
     search_log w @
     [\<lparr>req_search_text = query,
       req_filter = filter_expression cfg username,
       req_select = [''content'', ''metadata_storage_path''],
       req_top = top_k\<rparr>]"
  by (auto simp: search_documents_def search_documents_body_def print_then_if Let_def
        except_Exception_def split: sum.splits base_exception.splits)

lemma search_documents_log_cases:
  "search_log (snd (search_documents cfg w username query top_k)) = search_log w \<or>
   search_log (snd (search_documents cfg w username query top_k)) =
     search_log w @
     [\<lparr>req_search_text = query,
       req_filter = filter_expression cfg username,
       req_select = [''content'', ''metadata_storage_path''],
       req_top = top_k\<rparr>]"
proof (cases "encodable w (searching_line cfg query)")
  case False
  then show ?thesis
    by (simp add: search_documents_def search_documents_body_def print_then_if)
next
  case True
  show ?thesis
  proof (cases "search_client w (SEARCH_ENDPOINT cfg) (SEARCH_INDEX_NAME cfg) (SEARCH_API_KEY cfg)")
    case None
    with True show ?thesis using search_documents_sends [of w cfg query username top_k] by simp
  next
    case (Some e)
    with True show ?thesis
      by (cases e) (simp_all add: search_documents_def search_documents_body_def print_then_if)
  qed
qed


section \<open>The claims\<close>

subsection \<open>C1: which paths the range filter matches\<close>

text \<open>
  C1, as stated, fails: a path may start with the prefix \<open>P\<close> of user \<open>alice\<close> and still
  miss the upper bound \<open>P + "~"\<close>, when what follows \<open>P\<close> begins with \<open>~\<close> (or with any
  character that sorts after it). The blob \<open>alice/~draft.pdf\<close> is such a path.
\<close>

theorem filter_misses_tilde_path:
  "prefix (user_folder_url_prefix example_config ''alice'')
     ''https://acct.blob.core.windows.net/docs/alice/~draft.pdf'' \<and>
   \<not> filter_matches example_config ''alice''
     ''https://acct.blob.core.windows.net/docs/alice/~draft.pdf''"
  by (simp add: filter_matches_def upper_bound_def user_folder_url_prefix_def example_config_def
        fmt_def)

text \<open>
  C1, amended: for every username \<open>U\<close>, with \<open>P\<close> the prefix of line 102, a path satisfies
  both bounds \<open>P \<le> path\<close> and \<open>path < P + "~"\<close> exactly when it starts with \<open>P\<close> and what
  follows \<open>P\<close> is empty or begins with a character that sorts strictly before \<open>~\<close>. So
  every path that does not start with \<open>P\<close> fails a bound, and a path that starts with \<open>P\<close>
  satisfies both unless the rest begins with \<open>~\<close> or a later character.
\<close>

theorem filter_matches_iff_prefix_below_tilde:
  "filter_matches cfg username path =
     (\<exists>rest. path = user_folder_url_prefix cfg username @ rest \<and>
             (rest = [] \<or> hd rest < CHR ''~''))"
  unfolding filter_matches_def upper_bound_def by (rule sentinel_range)

text \<open>Two instances of C1: a file of \<open>alice\<close> is matched, a file of \<open>bob\<close> is not.\<close>

theorem filter_matches_iff_prefix_below_tilde_witness:
  "filter_matches example_config ''alice''
     ''https://acct.blob.core.windows.net/docs/alice/notes.pdf'' \<and>
   \<not> filter_matches example_config ''alice''
     ''https://acct.blob.core.windows.net/docs/bob/notes.pdf''"
proof
  have "''https://acct.blob.core.windows.net/docs/alice/notes.pdf'' =
          user_folder_url_prefix example_config ''alice'' @ ''notes.pdf'' \<and>
        (''notes.pdf'' = [] \<or> hd ''notes.pdf'' < CHR ''~'')"
    by (simp add: user_folder_url_prefix_def example_config_def fmt_def)
  then show "filter_matches example_config ''alice''
     ''https://acct.blob.core.windows.net/docs/alice/notes.pdf''"
    using filter_matches_iff_prefix_below_tilde
      [of example_config "''alice''" "''https://acct.blob.core.windows.net/docs/alice/notes.pdf''"]
    by blast
next
  have "\<not> (\<exists>rest. ''https://acct.blob.core.windows.net/docs/bob/notes.pdf'' =
          user_folder_url_prefix example_config ''alice'' @ rest \<and>
          (rest = [] \<or> hd rest < CHR ''~''))"
    by (simp add: user_folder_url_prefix_def example_config_def fmt_def)
  then show "\<not> filter_matches example_config ''alice''
     ''https://acct.blob.core.windows.net/docs/bob/notes.pdf''"
    using filter_matches_iff_prefix_below_tilde
      [of example_config "''alice''" "''https://acct.blob.core.windows.net/docs/bob/notes.pdf''"]
    by blast
qed

subsection \<open>C2: the filter string\<close>

text \<open>
  C2: for every username \<open>U\<close>, the filter string is
  \<open>metadata_storage_path ge 'P' and metadata_storage_path lt 'P~'\<close> with
  \<open>P = "{STORAGE_ACCOUNT_URL}/{CONTAINER_NAME}/{U}/"\<close>: \<open>U\<close> stands in it as it is, and the
  upper bound is \<open>P\<close> and one \<open>~\<close>. When the first line is printed and the search client is
  built, this is the filter of the one request that \<open>search_documents\<close> sends; in any case
  \<open>search_documents\<close> sends no request but this one.
\<close>

theorem filter_expression_exact:
  "filter_expression cfg username =
     ''metadata_storage_path ge '' @ quote @
       fmt (STORAGE_ACCOUNT_URL cfg) @ ''/'' @ fmt (CONTAINER_NAME cfg) @ ''/'' @ username @ ''/'' @
     quote @ '' and metadata_storage_path lt '' @ quote @
       fmt (STORAGE_ACCOUNT_URL cfg) @ ''/'' @ fmt (CONTAINER_NAME cfg) @ ''/'' @ username @ ''/'' @
       ''~'' @
     quote \<and>
   (encodable w (searching_line cfg query) \<and>
    search_client w (SEARCH_ENDPOINT cfg) (SEARCH_INDEX_NAME cfg) (SEARCH_API_KEY cfg) = None \<longrightarrow>
    search_log (snd (search_documents cfg w username query top_k)) =
      search_log w @
      [\<lparr>req_search_text = query,
        req_filter = filter_expression cfg username,
        req_select = [''content'', ''metadata_storage_path''],
        req_top = top_k\<rparr>]) \<and>
   (search_log (snd (search_documents cfg w username query top_k)) = search_log w \<or>
    search_log (snd (search_documents cfg w username query top_k)) =
      search_log w @
      [\<lparr>req_search_text = query,
        req_filter = filter_expression cfg username,
        req_select = [''content'', ''metadata_storage_path''],
        req_top = top_k\<rparr>])"
proof (intro conjI impI)
  show "filter_expression cfg username =
     ''metadata_storage_path ge '' @ quote @
       fmt (STORAGE_ACCOUNT_URL cfg) @ ''/'' @ fmt (CONTAINER_NAME cfg) @ ''/'' @ username @ ''/'' @
     quote @ '' and metadata_storage_path lt '' @ quote @
       fmt (STORAGE_ACCOUNT_URL cfg) @ ''/'' @ fmt (CONTAINER_NAME cfg) @ ''/'' @ username @ ''/'' @
       ''~'' @
     quote"
    by (simp add: filter_expression_def user_folder_url_prefix_def upper_bound_def)
next
  assume "encodable w (searching_line cfg query) \<and>
    search_client w (SEARCH_ENDPOINT cfg) (SEARCH_INDEX_NAME cfg) (SEARCH_API_KEY cfg) = None"
  then show "search_log (snd (search_documents cfg w username query top_k)) =
      search_log w @
      [\<lparr>req_search_text = query,
        req_filter = filter_expression cfg username,
        req_select = [''content'', ''metadata_storage_path''],
        req_top = top_k\<rparr>]"
    by (rule search_documents_sends)
next
  show "search_log (snd (search_documents cfg w username query top_k)) = search_log w \<or>
    search_log (snd (search_documents cfg w username query top_k)) =
      search_log w @
      [\<lparr>req_search_text = query,
        req_filter = filter_expression cfg username,
        req_select = [''content'', ''metadata_storage_path''],
        req_top = top_k\<rparr>]"
    by (rule search_documents_log_cases)
qed

text \<open>The instance of C2 for \<open>alice\<close>: the filter of the request sent, as text.\<close>

theorem filter_expression_exact_witness:
  "encodable example_world (searching_line example_config ''refund policy'') \<and>
   search_client example_world (SEARCH_ENDPOINT example_config) (SEARCH_INDEX_NAME example_config)
     (SEARCH_API_KEY example_config) = None \<and>
   map req_filter
     (search_log (snd (search_documents example_config example_world ''alice'' ''refund policy'' 3))) =
     [''metadata_storage_path ge 'https://acct.blob.core.windows.net/docs/alice/' and metadata_storage_path lt 'https://acct.blob.core.windows.net/docs/alice/~'' @ quote]"
proof -
  have printed: "encodable example_world (searching_line example_config ''refund policy'')"
    by (simp add: encodable_def example_world_def)
  have built: "search_client example_world (SEARCH_ENDPOINT example_config)
      (SEARCH_INDEX_NAME example_config) (SEARCH_API_KEY example_config) = None"
    by (simp add: example_world_def)
  have empty: "search_log example_world = []"
    by (simp add: example_world_def)
  have url: "fmt (STORAGE_ACCOUNT_URL example_config) = ''https://acct.blob.core.windows.net''"
    and container: "fmt (CONTAINER_NAME example_config) = ''docs''"
    by (simp_all add: example_config_def fmt_def)
  from filter_expression_exact
    [of example_config "''alice''" example_world "''refund policy''" 3]
  show ?thesis using printed built empty url container by simp
qed

subsection \<open>C3: the object key of an upload\<close>

text \<open>
  C3: for every username \<open>U\<close> and local path \<open>p\<close>, \<open>upload_file\<close> stores the bytes of the file
  under the key \<open>U + "/" + basename(p)\<close>, with \<open>U\<close> as it is and \<open>basename\<close> the
  \<open>os.path.basename\<close> of the platform. As soon as the two lines before the upload are
  printed and the clients, the file and the service raise nothing, the store is the old
  store with the bytes at that key, in place of the object that was there if there was
  one. A call that returns \<open>True\<close> has stored them so; and no call changes the store in any
  other way.
\<close>

theorem upload_file_stores_under_user_key:
  "(encodable w (authenticating_line username) \<and>
    container_client w (STORAGE_ACCOUNT_URL cfg) (CONTAINER_NAME cfg) = None \<and>
    encodable w (uploading_line (os_path_basename w local_file_path)
      (username @ ''/'' @ os_path_basename w local_file_path)) \<and>
    blob_client w (username @ ''/'' @ os_path_basename w local_file_path) = None \<and>
    open_rb w local_file_path = Inr data \<and>
    upload_fault w (username @ ''/'' @ os_path_basename w local_file_path) data = None
    \<longrightarrow> blobs (snd (upload_file cfg w username local_file_path)) =
          (blobs w)(username @ ''/'' @ os_path_basename w local_file_path \<mapsto> data)) \<and>
   (fst (upload_file cfg w username local_file_path) = Inr True
    \<longrightarrow> (\<exists>bytes. open_rb w local_file_path = Inr bytes \<and>
          blobs (snd (upload_file cfg w username local_file_path)) =
            (blobs w)(username @ ''/'' @ os_path_basename w local_file_path \<mapsto> bytes))) \<and>
   (blobs (snd (upload_file cfg w username local_file_path)) = blobs w \<or>
    (\<exists>bytes. open_rb w local_file_path = Inr bytes \<and>
       blobs (snd (upload_file cfg w username local_file_path)) =
         (blobs w)(username @ ''/'' @ os_path_basename w local_file_path \<mapsto> bytes)))"
  using upload_file_stores [of w username cfg local_file_path data]
    upload_file_True_blobs [of cfg w username local_file_path]
    upload_file_blobs_cases [of cfg w username local_file_path]
  by blast

text \<open>
  Instances of C3: \<open>alice\<close> uploads \<open>/home/alice/notes.pdf\<close> to the empty store, which then
  holds the one object \<open>alice/notes.pdf\<close>; and over an older object at that key, which the
  new bytes replace.
\<close>

theorem upload_file_stores_under_user_key_witness:
  "blobs (snd (upload_file example_config example_world ''alice'' ''/home/alice/notes.pdf'')) =
     [''alice/notes.pdf'' \<mapsto> ''%PDF first''] \<and>
   fst (upload_file example_config example_world ''alice'' ''/home/alice/notes.pdf'') = Inr True \<and>
   blobs (snd (upload_file example_config
         (example_world\<lparr>blobs := [''alice/notes.pdf'' \<mapsto> ''%PDF old'']\<rparr>)
         ''alice'' ''/home/alice/notes.pdf'')) = [''alice/notes.pdf'' \<mapsto> ''%PDF first'']"
proof -
  let ?old = "example_world\<lparr>blobs := [''alice/notes.pdf'' \<mapsto> ''%PDF old'']\<rparr>"
  have name: "posixpath_basename ''/home/alice/notes.pdf'' = ''notes.pdf''"
    by (simp add: posixpath_basename_def)
  have steps: "encodable example_world (authenticating_line ''alice'') \<and>
    container_client example_world (STORAGE_ACCOUNT_URL example_config)
      (CONTAINER_NAME example_config) = None \<and>
    encodable example_world
      (uploading_line (os_path_basename example_world ''/home/alice/notes.pdf'')
        (''alice'' @ ''/'' @ os_path_basename example_world ''/home/alice/notes.pdf'')) \<and>
    blob_client example_world
      (''alice'' @ ''/'' @ os_path_basename example_world ''/home/alice/notes.pdf'') = None \<and>
    open_rb example_world ''/home/alice/notes.pdf'' = Inr ''%PDF first'' \<and>
    upload_fault example_world
      (''alice'' @ ''/'' @ os_path_basename example_world ''/home/alice/notes.pdf'')
      ''%PDF first'' = None"
    by (simp add: example_world_def encodable_def)
  have steps_old: "encodable ?old (authenticating_line ''alice'') \<and>
    container_client ?old (STORAGE_ACCOUNT_URL example_config)
      (CONTAINER_NAME example_config) = None \<and>
    encodable ?old
      (uploading_line (os_path_basename ?old ''/home/alice/notes.pdf'')
        (''alice'' @ ''/'' @ os_path_basename ?old ''/home/alice/notes.pdf'')) \<and>
    blob_client ?old
      (''alice'' @ ''/'' @ os_path_basename ?old ''/home/alice/notes.pdf'') = None \<and>
    open_rb ?old ''/home/alice/notes.pdf'' = Inr ''%PDF first'' \<and>
    upload_fault ?old
      (''alice'' @ ''/'' @ os_path_basename ?old ''/home/alice/notes.pdf'')
      ''%PDF first'' = None"
    by (simp add: example_world_def encodable_def)
  have key: "os_path_basename example_world ''/home/alice/notes.pdf'' = ''notes.pdf''"
    "os_path_basename ?old ''/home/alice/notes.pdf'' = ''notes.pdf''"
    by (simp_all add: example_world_def name)
  have empty: "blobs example_world = Map.empty"
    and old: "blobs ?old = [''alice/notes.pdf'' \<mapsto> ''%PDF old'']"
    by (simp_all add: example_world_def)
  from upload_file_stores_under_user_key
    [of example_world "''alice''" example_config "''/home/alice/notes.pdf''" "''%PDF first''"]
    steps
  have "blobs (snd (upload_file example_config example_world ''alice'' ''/home/alice/notes.pdf'')) =
      (blobs example_world)
        (''alice'' @ ''/'' @ os_path_basename example_world ''/home/alice/notes.pdf'' \<mapsto> ''%PDF first'')"
    by blast
  then have fresh:
    "blobs (snd (upload_file example_config example_world ''alice'' ''/home/alice/notes.pdf'')) =
      [''alice/notes.pdf'' \<mapsto> ''%PDF first'']"
    by (simp add: key empty)
  from upload_file_stores_under_user_key
    [of ?old "''alice''" example_config "''/home/alice/notes.pdf''" "''%PDF first''"]
    steps_old
  have "blobs (snd (upload_file example_config ?old ''alice'' ''/home/alice/notes.pdf'')) =
      (blobs ?old)
        (''alice'' @ ''/'' @ os_path_basename ?old ''/home/alice/notes.pdf'' \<mapsto> ''%PDF first'')"
    by blast
  then have replaced:
    "blobs (snd (upload_file example_config ?old ''alice'' ''/home/alice/notes.pdf'')) =
      [''alice/notes.pdf'' \<mapsto> ''%PDF first'']"
    by (simp add: key old)
  have ok: "fst (upload_file example_config example_world ''alice'' ''/home/alice/notes.pdf'') = Inr True"
    by (rule upload_file_succeeds [where data = "''%PDF first''"])
      (simp_all add: example_world_def)
  from fresh ok replaced show ?thesis by blast
qed

subsection \<open>C4: search_documents swallows the errors of the backend\<close>



subsection \<open>C5: no documents, no request\<close>

text \<open>
  C5: for every question, \<open>generate_rag_answer\<close> with an empty list of documents returns
  the fixed message, and all it does is print its first line: no client is built and no
  chat-completion request is sent, whatever the services would have answered.
\<close>

theorem generate_rag_answer_no_documents:
  "generate_rag_answer cfg w user_question [] =
     (Inr (Some ''No relevant documents found. (Did the Indexer run?)''),
      w\<lparr>stdout := stdout w @ [''--- Generating answer with Azure OpenAI... ---\<newline>'']\<rparr>) \<and>
   chat_log (snd (generate_rag_answer cfg w user_question [])) = chat_log w"
  by (simp add: generate_rag_answer_def generate_rag_answer_body_def)

subsection \<open>C6: generate_rag_answer swallows the errors of the request\<close>



subsection \<open>C7: what search_documents returns\<close>




subsection \<open>C8: upload_file and a standard output without the emoji\<close>

text \<open>
  C8 does not hold of the code. The lines of lines 73, 74 and 78 begin with characters
  beyond ASCII. On a standard output that cannot encode them, an upload whose steps all
  succeed writes the object and then raises at line 73; the handler raises in turn at
  line 78, and UnicodeEncodeError reaches the caller in place of \<open>True\<close>. An upload that
  fails (here, the local file is missing) raises from the handler in place of returning
  \<open>False\<close>. The handlers of \<open>search_documents\<close> and \<open>generate_rag_answer\<close> print ASCII
  literals and do return.
\<close>

theorem upload_file_raises_on_ascii_stdout:
  "fst (upload_file example_config example_world_ascii_stdout ''alice'' ''/home/alice/notes.pdf'')
     = Inl (Exception ''UnicodeEncodeError'') \<and>
   blobs (snd (upload_file example_config example_world_ascii_stdout ''alice''
                 ''/home/alice/notes.pdf''))
     = [''alice/notes.pdf'' \<mapsto> ''%PDF first''] \<and>
   fst (upload_file example_config example_world_ascii_stdout ''alice'' ''/home/alice/missing.pdf'')
     = Inl (Exception ''UnicodeEncodeError'')"
  by (simp add: upload_file_def upload_file_body_def upload_file_handler_def upload_blob_def
        print_then_if print_exception_then_if encodable_def Let_def
        authenticating_line_def uploading_line_def posixpath_basename_def
        example_world_ascii_stdout_def example_world_def)

subsection \<open>C9: uploading twice to one key\<close>

text \<open>
  C9: when a file is uploaded and then a file of the same basename is uploaded again for
  the same username, both with success, the store afterwards is the store from before the
  first upload with one object at the key \<open>U/basename\<close>, holding the bytes of the second
  upload; no other key has changed. If the bytes are those of the first upload, the second
  upload changes nothing. The basename is the \<open>os.path.basename\<close> of the platform,
  whichever it is.
\<close>

theorem upload_file_twice_keeps_latest:
  assumes "upload_file cfg w username path1 = (Inr True, w1)"
    and "blobs w2 = blobs w1"
    and "upload_file cfg w2 username path2 = (Inr True, w3)"
    and "os_path_basename w2 path2 = os_path_basename w path1"
    and "open_rb w2 path2 = Inr latest"
  shows "blobs w3 (username @ ''/'' @ os_path_basename w path1) = Some latest \<and>
         blobs w3 = (blobs w)(username @ ''/'' @ os_path_basename w path1 \<mapsto> latest) \<and>
         (open_rb w path1 = Inr latest \<longrightarrow> blobs w3 = blobs w1)"
proof -
  from assms(1) have "fst (upload_file cfg w username path1) = Inr True"
    and "snd (upload_file cfg w username path1) = w1"
    by simp_all
  with upload_file_True_blobs [of cfg w username path1]
  obtain d1 where d1: "open_rb w path1 = Inr d1"
    "blobs w1 = (blobs w)(username @ ''/'' @ os_path_basename w path1 \<mapsto> d1)"
    by auto
  from assms(3) have "fst (upload_file cfg w2 username path2) = Inr True"
    and "snd (upload_file cfg w2 username path2) = w3"
    by simp_all
  with upload_file_True_blobs [of cfg w2 username path2]
  obtain d2 where d2: "open_rb w2 path2 = Inr d2"
    "blobs w3 = (blobs w2)(username @ ''/'' @ os_path_basename w2 path2 \<mapsto> d2)"
    by auto
  from d2 assms(2,4,5)
  have w3: "blobs w3 = (blobs w1)(username @ ''/'' @ os_path_basename w path1 \<mapsto> latest)"
    by simp
  have "blobs w3 (username @ ''/'' @ os_path_basename w path1) = Some latest"
    by (simp add: w3)
  moreover have "blobs w3 = (blobs w)(username @ ''/'' @ os_path_basename w path1 \<mapsto> latest)"
    by (simp add: w3 d1)
  moreover have "open_rb w path1 = Inr latest \<longrightarrow> blobs w3 = blobs w1"
    by (auto simp: w3 d1)
  ultimately show ?thesis by blast
qed

text \<open>
  An instance of C9: \<open>alice\<close> uploads \<open>/home/alice/notes.pdf\<close>, then \<open>/tmp/notes.pdf\<close>
  with newer bytes; the store holds the one object \<open>alice/notes.pdf\<close>, with the newer bytes.
\<close>

theorem upload_file_twice_keeps_latest_witness:
  "fst (upload_file example_config example_world ''alice'' ''/home/alice/notes.pdf'') = Inr True \<and>
   fst (upload_file example_config example_world_later ''alice'' ''/tmp/notes.pdf'') = Inr True \<and>
   os_path_basename example_world_later ''/tmp/notes.pdf'' =
     os_path_basename example_world ''/home/alice/notes.pdf'' \<and>
   open_rb example_world_later ''/tmp/notes.pdf'' = Inr ''%PDF second'' \<and>
   blobs (snd (upload_file example_config example_world_later ''alice'' ''/tmp/notes.pdf'')) =
     [''alice/notes.pdf'' \<mapsto> ''%PDF second'']"
proof -
  let ?first = "upload_file example_config example_world ''alice'' ''/home/alice/notes.pdf''"
  let ?second = "upload_file example_config example_world_later ''alice'' ''/tmp/notes.pdf''"
  have later: "example_world_later = (snd ?first)\<lparr>open_rb := \<lambda>p. Inr ''%PDF second''\<rparr>"
    by (simp add: example_world_later_def)
  have posix: "os_path_basename example_world = posixpath_basename"
    "os_path_basename example_world_later = posixpath_basename"
    by (simp_all add: later upload_file_frame example_world_def)
  have name: "os_path_basename example_world ''/home/alice/notes.pdf'' = ''notes.pdf''"
    and same: "os_path_basename example_world_later ''/tmp/notes.pdf'' =
      os_path_basename example_world ''/home/alice/notes.pdf''"
    by (simp_all add: posix posixpath_basename_def)
  have ok1: "fst ?first = Inr True"
    by (rule upload_file_succeeds [where data = "''%PDF first''"])
      (simp_all add: example_world_def)
  have kept: "blobs example_world_later = blobs (snd ?first)"
    by (simp add: later)
  have newer: "open_rb example_world_later ''/tmp/notes.pdf'' = Inr ''%PDF second''"
    by (simp add: later)
  have ok2: "fst ?second = Inr True"
    by (rule upload_file_succeeds [where data = "''%PDF second''"])
      (simp_all add: later upload_file_frame example_world_def)
  have first: "?first = (Inr True, snd ?first)"
    using ok1 by (metis prod.collapse)
  have second: "?second = (Inr True, snd ?second)"
    using ok2 by (metis prod.collapse)
  have empty: "blobs example_world = Map.empty"
    by (simp add: example_world_def)
  from upload_file_twice_keeps_latest [OF first kept second same newer]
  have "blobs (snd ?second) =
      (blobs example_world)(''alice'' @ ''/'' @ os_path_basename example_world ''/home/alice/notes.pdf'' \<mapsto> ''%PDF second'')"
    by blast
  then have stored: "blobs (snd ?second) = [''alice/notes.pdf'' \<mapsto> ''%PDF second'']"
    by (simp add: name empty)
  from ok1 ok2 same newer stored show ?thesis by blast
qed

subsection \<open>C10: an empty username ends main\<close>

text \<open>
  C10: when the first line read strips to the empty string, \<open>main\<close> returns at once. All it
  has done is print the banner and the username prompt: the upload prompt is not written,
  no further line is read, and the store and the logs of the two services are as before,
  so nothing was uploaded and the question loop was not entered.
\<close>

theorem main_returns_on_empty_username:
  assumes "strip line = []"
  shows "main cfg (line # stdin) w =
    (Inr (),
     w\<lparr>stdout := stdout w @
         [replicate 60 (CHR ''='') @ ''\<newline>'',
          ''      STUDENT PDF RAG SYSTEM (Identity Auth)      \<newline>'',
          replicate 60 (CHR ''='') @ ''\<newline>'',
          ''Enter your username (e.g., Dheeraj): '']\<rparr>)"
  using assms by (simp add: main_def Let_def prompt_def)

text \<open>
  An instance of C10: the username is three blanks, and the lines that would start an
  upload and ask a question are left unread.
\<close>

theorem main_returns_on_empty_username_witness:
  "strip ''   '' = [] \<and>
   main example_config [''   '', ''yes'', ''/home/alice/notes.pdf'', ''refund policy'', ''exit'']
     example_world =
    (Inr (),
     example_world\<lparr>stdout :=
         [replicate 60 (CHR ''='') @ ''\<newline>'',
          ''      STUDENT PDF RAG SYSTEM (Identity Auth)      \<newline>'',
          replicate 60 (CHR ''='') @ ''\<newline>'',
          ''Enter your username (e.g., Dheeraj): '']\<rparr>)"
proof -
  have blank: "strip ''   '' = []"
    by (simp add: strip_def whitespace_def lstrip_any.simps)
  have "stdout example_world = []" by (simp add: example_world_def)
  with main_returns_on_empty_username
    [OF blank, of example_config "[''yes'', ''/home/alice/notes.pdf'', ''refund policy'', ''exit'']"
      example_world]
  show ?thesis using blank by simp
qed

end
